theory Spec2Isabelle
  imports Main
begin

section \<open>JavaScript values\<close>

text \<open>
  The dashboard script (\<^verbatim>\<open>static/js/custom.js\<close>, class \<^verbatim>\<open>Dashboard\<close>) reads every
  server reply through \<^verbatim>\<open>response.json()\<close> and never checks its shape, so a reply is an
  arbitrary JSON value, and a missing property reads as \<^verbatim>\<open>undefined\<close>.

  Limits of the model of values:
  \<^item> a number is an integer (a count, a quantity, an amount in XAF) below \<open>10^21\<close> in
    absolute value, printed in decimal; fractions, NaN and the exponent notation of
    large numbers are not modelled;
  \<^item> a string is the list of its code units, taken from ASCII;
  \<^item> where JavaScript converts a string to a number, the conversion is taken as
    correctly rounded to the nearest double, as the engines do (the standard leaves
    the last bit open for numerals of more than 20 significant digits).
\<close>

datatype jsval =
    JUndefined
  | JNull
  | JBool bool
  | JNum int
  | JStr string
  | JArr "jsval list"
  | JObj "(string \<times> jsval) list"

text \<open>\<^verbatim>\<open>v === null || v === undefined\<close>: reading a property of such a value throws.\<close>

fun nullish :: "jsval \<Rightarrow> bool" where
  "nullish JUndefined = True"
| "nullish JNull = True"
| "nullish _ = False"

text \<open>ToBoolean, as used by \<^verbatim>\<open>if (data.success)\<close> and by \<^verbatim>\<open>a || b\<close>.\<close>

fun truthy :: "jsval \<Rightarrow> bool" where
  "truthy JUndefined = False"
| "truthy JNull = False"
| "truthy (JBool b) = b"
| "truthy (JNum n) = (n \<noteq> 0)"
| "truthy (JStr s) = (s \<noteq> [])"
| "truthy (JArr _) = True"
| "truthy (JObj _) = True"

text \<open>A parameter with a default, \<^verbatim>\<open>f(x = d)\<close>: the default stands in for \<^verbatim>\<open>undefined\<close>.\<close>

definition default_to :: "jsval \<Rightarrow> jsval \<Rightarrow> jsval" where
  "default_to d v = (if v = JUndefined then d else v)"

text \<open>\<^verbatim>\<open>a || b\<close>\<close>

definition js_or :: "jsval \<Rightarrow> jsval \<Rightarrow> jsval" where
  "js_or a b = (if truthy a then a else b)"

subsection \<open>Decimal numerals\<close>

definition digit_char :: "nat \<Rightarrow> char" where
  "digit_char n = ''0123456789'' ! n"

function show_nat :: "nat \<Rightarrow> string" where
  "show_nat n = (if n < 10 then [digit_char n] else show_nat (n div 10) @ [digit_char (n mod 10)])"
  by pat_completeness auto
termination
  by (relation "measure id") auto

declare show_nat.simps [simp del]

definition show_int :: "int \<Rightarrow> string" where
  "show_int i = (if i < 0 then CHR ''-'' # show_nat (nat (- i)) else show_nat (nat i))"

definition is_digit :: "char \<Rightarrow> bool" where
  "is_digit c = (c \<in> set ''0123456789'')"

definition digit_val :: "char \<Rightarrow> nat" where
  "digit_val c = of_char c - 48"

definition digits_val :: "string \<Rightarrow> nat" where
  "digits_val ds = foldl (\<lambda>a c. 10 * a + digit_val c) 0 ds"

text \<open>The ASCII members of StrWhiteSpaceChar: TAB, LF, VT, FF, CR and the space.\<close>

definition is_space :: "char \<Rightarrow> bool" where
  "is_space c = (of_char c \<in> {9::nat, 10, 11, 12, 13, 32})"

definition trim :: "string \<Rightarrow> string" where
  "trim s = rev (dropWhile is_space (rev (dropWhile is_space s)))"

text \<open>The value of a digit in a radix up to 16; \<open>None\<close> for any other character.\<close>

definition hex_val :: "char \<Rightarrow> nat option" where
  "hex_val c =
     (if is_digit c then Some (digit_val c)
      else if c \<in> set ''abcdef'' then Some (of_char c - 87)
      else if c \<in> set ''ABCDEF'' then Some (of_char c - 55)
      else None)"

subsection \<open>Strings as numbers\<close>

text \<open>
  \<^verbatim>\<open>s > 0\<close> for a string \<open>s\<close> compares StringToNumber(\<open>s\<close>) with 0. The functions below
  decide whether that number is greater than 0, following the grammar of
  StringNumericLiteral: white space around the literal is dropped; the literal is
  empty (the number 0), or a binary, octal or hexadecimal integer without sign, or a
  decimal literal with an optional sign, an optional fraction and an optional exponent,
  or \<^verbatim>\<open>Infinity\<close> with an optional sign; anything else is NaN, which is not greater
  than 0.
\<close>

text \<open>The radix announced by the first two characters, if any.\<close>

definition radix_prefix :: "string \<Rightarrow> nat option" where
  "radix_prefix t =
     (if take 2 t = ''0x'' \<or> take 2 t = ''0X'' then Some 16
      else if take 2 t = ''0o'' \<or> take 2 t = ''0O'' then Some 8
      else if take 2 t = ''0b'' \<or> take 2 t = ''0B'' then Some 2
      else None)"

text \<open>One or more digits of the radix \<open>r\<close>.\<close>

definition digits_in :: "nat \<Rightarrow> string \<Rightarrow> bool" where
  "digits_in r ds =
     (ds \<noteq> [] \<and> list_all (\<lambda>c. case hex_val c of Some d \<Rightarrow> d < r | None \<Rightarrow> False) ds)"

text \<open>
  The optional exponent part: nothing (exponent 0), or \<^verbatim>\<open>e\<close> or \<^verbatim>\<open>E\<close>, an optional
  sign and one or more digits; \<open>None\<close> when the text is neither.
\<close>

definition exponent_part :: "string \<Rightarrow> int option" where
  "exponent_part r =
     (case r of
        [] \<Rightarrow> Some 0
      | c # ds \<Rightarrow>
          if c = CHR ''e'' \<or> c = CHR ''E'' then
            (let neg = (take 1 ds = ''-'');
                 us = (if take 1 ds = ''-'' \<or> take 1 ds = ''+'' then drop 1 ds else ds)
             in if us \<noteq> [] \<and> list_all is_digit us
                then Some (if neg then - int (digits_val us) else int (digits_val us))
                else None)
          else None)"

text \<open>
  An unsigned decimal literal denotes \<open>m * 10 ^ k\<close>, with \<open>m\<close> the digits before and
  after the point and \<open>k\<close> the exponent less the number of digits after the point. As a
  double it is greater than 0 unless it rounds to 0, which it does up to \<open>2 ^ -1075\<close>,
  half of the least positive double.
\<close>

definition decimal_gt0 :: "string \<Rightarrow> bool" where
  "decimal_gt0 u =
     (if u = ''Infinity'' then True
      else
        (let ip = takeWhile is_digit u;
             r1 = dropWhile is_digit u;
             dot = (take 1 r1 = ''.'');
             fp = (if dot then takeWhile is_digit (drop 1 r1) else []);
             r2 = (if dot then dropWhile is_digit (drop 1 r1) else r1)
         in if ip = [] \<and> fp = [] then False
            else
              (case exponent_part r2 of
                 None \<Rightarrow> False
               | Some e \<Rightarrow>
                   (let m = digits_val (ip @ fp);
                        k = e - int (length fp)
                    in 0 < m \<and> (0 \<le> k \<or> 10 ^ nat (- k) < m * 2 ^ 1075)))))"

text \<open>StringToNumber(\<open>s\<close>) \<^verbatim>\<open>> 0\<close>\<close>

definition str_gt0 :: "string \<Rightarrow> bool" where
  "str_gt0 s =
     (let t = trim s
      in case radix_prefix t of
           Some r \<Rightarrow> digits_in r (drop 2 t) \<and> \<not> list_all (\<lambda>c. c = CHR ''0'') (drop 2 t)
         | None \<Rightarrow>
             (case t of
                [] \<Rightarrow> False
              | c # u \<Rightarrow>
                  if c = CHR ''-'' then False
                  else if c = CHR ''+'' then decimal_gt0 u
                  else decimal_gt0 t))"




subsection \<open>ToString, ToNumber, property reads\<close>

text \<open>\<^verbatim>\<open>list.join(sep)\<close> on strings.\<close>

fun join :: "string \<Rightarrow> string list \<Rightarrow> string" where
  "join sep [] = []"
| "join sep [x] = x"
| "join sep (x # y # ys) = x @ sep @ join sep (y # ys)"

text \<open>
  ToString, as a template literal \<^verbatim>\<open>${v}\<close> applies it. An array prints its elements
  joined by commas, a null or undefined element as the empty string.
\<close>

fun to_string :: "jsval \<Rightarrow> string" where
  "to_string JUndefined = ''undefined''"
| "to_string JNull = ''null''"
| "to_string (JBool b) = (if b then ''true'' else ''false'')"
| "to_string (JNum n) = show_int n"
| "to_string (JStr s) = s"
| "to_string (JArr xs) = join '','' (map (\<lambda>x. if nullish x then [] else to_string x) xs)"
| "to_string (JObj _) = ''[object Object]''"

text \<open>
  The setter of \<^verbatim>\<open>element.textContent\<close>: its type is a nullable string, so
  \<^verbatim>\<open>null\<close> and \<^verbatim>\<open>undefined\<close> both clear the element.
\<close>

definition text_content :: "jsval \<Rightarrow> string" where
  "text_content v = (if nullish v then [] else to_string v)"

text \<open>
  \<^verbatim>\<open>v > 0\<close>: \<open>v\<close> is converted to a number, an array or an object through its string;
  \<^verbatim>\<open>undefined\<close> converts to NaN and \<^verbatim>\<open>null\<close> to 0.
\<close>

fun js_gt0 :: "jsval \<Rightarrow> bool" where
  "js_gt0 JUndefined = False"
| "js_gt0 JNull = False"
| "js_gt0 (JBool b) = b"
| "js_gt0 (JNum n) = (0 < n)"
| "js_gt0 (JStr s) = str_gt0 s"
| "js_gt0 (JArr xs) = str_gt0 (to_string (JArr xs))"
| "js_gt0 (JObj kvs) = str_gt0 (to_string (JObj kvs))"

text \<open>
  \<^verbatim>\<open>v.k\<close> for a value \<open>v\<close> that is neither null nor undefined (on those the read throws
  a TypeError, which every caller below checks first with \<^const>\<open>nullish\<close>). An object
  holds its own properties as JSON.parse left them; none of the names the script reads
  is inherited from a prototype, except \<^verbatim>\<open>length\<close> of arrays and strings.
\<close>

fun js_prop :: "jsval \<Rightarrow> string \<Rightarrow> jsval" where
  "js_prop (JObj kvs) k = (case map_of kvs k of Some v \<Rightarrow> v | None \<Rightarrow> JUndefined)"
| "js_prop (JArr xs) k = (if k = ''length'' then JNum (int (length xs)) else JUndefined)"
| "js_prop (JStr s) k = (if k = ''length'' then JNum (int (length s)) else JUndefined)"
| "js_prop _ k = JUndefined"

section \<open>The page and the network\<close>

text \<open>
  The page is what the script reads and writes through \<^verbatim>\<open>document\<close>. The templates that
  render it are not part of the sources, so the page is an input: each element the
  script looks up may be present or absent. The elements found by different selectors
  are taken to be different elements, none nested in another.
\<close>

text \<open>\<^verbatim>\<open>#cart-badge\<close> and \<^verbatim>\<open>#notification-badge\<close>: \<^verbatim>\<open>textContent\<close> and \<^verbatim>\<open>style.display\<close>.\<close>

record badge =
  badge_text :: string
  badge_display :: string

text \<open>\<^verbatim>\<open>#search-results\<close>: \<^verbatim>\<open>innerHTML\<close> and \<^verbatim>\<open>classList\<close>.\<close>

record panel =
  panel_html :: string
  panel_classes :: "string list"

text \<open>\<^verbatim>\<open>#loading-indicator\<close>\<close>

record loading =
  loading_class :: string
  loading_zindex :: string
  loading_html :: string
  loading_display :: string

text \<open>\<^verbatim>\<open>#toast-container\<close>; its children are the fragments inserted at its end.\<close>

record toasts =
  toasts_class :: string
  toasts_zindex :: string
  toasts_children :: "string list"

datatype http_method = GET | POST

text \<open>
  The arguments of a call of \<^verbatim>\<open>fetch\<close>. The body is the object handed to
  JSON.stringify, without the properties whose value is \<^verbatim>\<open>undefined\<close> (which
  JSON.stringify leaves out).
\<close>

record request =
  req_url :: string
  req_method :: http_method
  req_headers :: "(string \<times> string) list"
  req_body :: "jsval option"

text \<open>
  What the two awaits \<^verbatim>\<open>await fetch(...)\<close> and \<^verbatim>\<open>await response.json()\<close> give: the
  first rejects on a transport failure, the second on a body that is not JSON, and
  otherwise the parsed value arrives, whatever the HTTP status was.
\<close>

datatype reply = NetworkFailure | BadBody | Json jsval

text \<open>The server, as the script sees it: the reply to the \<open>k\<close>-th request of the page.\<close>

type_synonym server = "nat \<Rightarrow> request \<Rightarrow> reply"

record world =
  clock :: nat  \<comment> \<open>\<^verbatim>\<open>Date.now()\<close>, in milliseconds\<close>
  csrf_field :: "string option"  \<comment> \<open>value of \<^verbatim>\<open>[name=csrfmiddlewaretoken]\<close>\<close>
  csrf_meta :: "string option"  \<comment> \<open>content of \<^verbatim>\<open>meta[name="csrf-token"]\<close>\<close>
  cart_badge :: "badge option"
  quantity_els :: "(string \<times> string) list"
    \<comment> \<open>elements with \<^verbatim>\<open>data-quantity-for\<close>, in document order: attribute, text\<close>
  cart_item_els :: "string list"
    \<comment> \<open>elements with \<^verbatim>\<open>data-cart-item\<close>, in document order: attribute\<close>
  cart_total :: "string option"  \<comment> \<open>text of \<^verbatim>\<open>#cart-total\<close>\<close>
  search_results :: "panel option"
  notification_badge :: "badge option"
  notification_menu :: "string option"  \<comment> \<open>\<^verbatim>\<open>innerHTML\<close> of \<^verbatim>\<open>#notification-menu\<close>\<close>
  stat_els :: "(string \<times> string) list"
    \<comment> \<open>elements with an id \<^verbatim>\<open>stat-<key>\<close>, in document order: key, text\<close>
  loading_indicator :: "loading option"
  toast_container :: "toasts option"
  requests :: "(nat \<times> request) list"  \<comment> \<open>every call of \<^verbatim>\<open>fetch\<close>, with its time\<close>
  console :: "string list"  \<comment> \<open>the labels given to \<^verbatim>\<open>console.error\<close>\<close>
  reloads :: "nat list"
    \<comment> \<open>due times of the \<^verbatim>\<open>setTimeout(() => window.location.reload(), 1000)\<close> calls\<close>

text \<open>
  An operation is modelled as run to its end in one step: the reply is there when the
  request is made, and no other handler runs in between. What the script does when
  replies of overlapping operations arrive in another order is outside the model, and
  so is the reload itself, which ends the page.
\<close>

text \<open>The reply that the next request of the page gets, if it is \<open>rq\<close>.\<close>

definition answer :: "server \<Rightarrow> request \<Rightarrow> world \<Rightarrow> reply" where
  "answer srv rq w = srv (length (requests w)) rq"

text \<open>The page once \<open>rq\<close> is sent.\<close>

definition sent :: "request \<Rightarrow> world \<Rightarrow> world" where
  "sent rq w = w\<lparr>requests := requests w @ [(clock w, rq)]\<rparr>"

definition fetch :: "server \<Rightarrow> request \<Rightarrow> world \<Rightarrow> reply \<times> world" where
  "fetch srv rq w = (answer srv rq w, sent rq w)"

definition console_error :: "string \<Rightarrow> world \<Rightarrow> world" where
  "console_error label w = w\<lparr>console := console w @ [label]\<rparr>"

subsection \<open>Elements found by an attribute selector\<close>

text \<open>
  The script finds the quantity of an item and the node of a cart item with
  \<^verbatim>\<open>document.querySelector\<close> on a selector built by interpolation,
  \<^verbatim>\<open>[data-quantity-for="${menuItemId}"]\<close> and \<^verbatim>\<open>[data-cart-item="${menuItemId}"]\<close>.
  When the id has no double quote, backslash, line break or NUL, the selector is valid
  and matches the elements whose attribute is the id, and \<^verbatim>\<open>querySelector\<close> gives the
  first of them in document order.
\<close>

definition plain_id :: "string \<Rightarrow> bool" where
  "plain_id k = list_all (\<lambda>c. of_char c \<notin> {0::nat, 10, 12, 13, 34, 92}) k"

text \<open>
  \<open>set_first\<close> writes the text of the first element whose attribute is \<open>k\<close>, and
  \<^const>\<open>remove1\<close> removes the first cart item with that attribute; both do nothing
  when there is none.
\<close>

fun set_first :: "string \<Rightarrow> string \<Rightarrow> (string \<times> string) list \<Rightarrow> (string \<times> string) list" where
  "set_first k v [] = []"
| "set_first k v ((a, t) # xs) = (if a = k then (a, v) # xs else (a, t) # set_first k v xs)"

text \<open>
  With any other id the interpolation spells another selector, or none: what the
  browser makes of it (a SyntaxError, no element, or some element of the page, which
  need not be one of those above) is not determined here. It is a parameter of the
  model: given the selector and what the script does with the element it finds, the
  page after that step, or \<open>None\<close> when \<^verbatim>\<open>querySelector\<close> throws.
\<close>

datatype dom_action = SetText string | RemoveNode

type_synonym selector_engine = "string \<Rightarrow> dom_action \<Rightarrow> world \<Rightarrow> world option"


definition cart_item_selector :: "string \<Rightarrow> string" where
  \<open>cart_item_selector k = ''[data-cart-item="'' @ k @ ''"]''\<close>


text \<open>\<^verbatim>\<open>cartItem.remove()\<close> on the element found, if any.\<close>

definition remove_cart_item :: "selector_engine \<Rightarrow> string \<Rightarrow> world \<Rightarrow> world option" where
  "remove_cart_item css k w =
     (if plain_id k then Some (w\<lparr>cart_item_els := remove1 k (cart_item_els w)\<rparr>)
      else css (cart_item_selector k) RemoveNode w)"

text \<open>\<^verbatim>\<open>classList.add(c)\<close> and \<^verbatim>\<open>classList.remove(c)\<close>\<close>

definition class_add :: "string \<Rightarrow> panel \<Rightarrow> panel" where
  "class_add c p = (if c \<in> set (panel_classes p) then p else p\<lparr>panel_classes := panel_classes p @ [c]\<rparr>)"

definition class_remove :: "string \<Rightarrow> panel \<Rightarrow> panel" where
  "class_remove c p = p\<lparr>panel_classes := filter (\<lambda>x. x \<noteq> c) (panel_classes p)\<rparr>"

subsection \<open>Requests\<close>

definition getCSRFToken :: "world \<Rightarrow> string" where
  "getCSRFToken w =
     (let meta = (case csrf_meta w of Some c \<Rightarrow> c | None \<Rightarrow> [])
      in case csrf_field w of
           Some v \<Rightarrow> if v \<noteq> [] then v else meta
         | None \<Rightarrow> meta)"

definition stringify_fields :: "(string \<times> jsval) list \<Rightarrow> jsval" where
  "stringify_fields kvs = JObj (filter (\<lambda>kv. snd kv \<noteq> JUndefined) kvs)"

definition json_post :: "string \<Rightarrow> string \<Rightarrow> (string \<times> jsval) list \<Rightarrow> request" where
  "json_post u token kvs =
     \<lparr>req_url = u, req_method = POST,
      req_headers = [(''Content-Type'', ''application/json''), (''X-CSRFToken'', token)],
      req_body = Some (stringify_fields kvs)\<rparr>"

definition http_get :: "string \<Rightarrow> request" where
  "http_get u = \<lparr>req_url = u, req_method = GET, req_headers = [], req_body = None\<rparr>"




definition cart_remove_request :: "string \<Rightarrow> jsval \<Rightarrow> request" where
  "cart_remove_request token menuItemId =
     json_post ''/orders/api/cart/remove/'' token [(''menu_item_id'', menuItemId)]"


definition order_cancel_request :: "string \<Rightarrow> jsval \<Rightarrow> request" where
  "order_cancel_request token orderId =
     \<lparr>req_url = ''/orders/cancel/'' @ to_string orderId @ ''/'', req_method = POST,
      req_headers = [(''X-CSRFToken'', token)], req_body = None\<rparr>"

text \<open>\<^verbatim>\<open>encodeURIComponent\<close> on ASCII text.\<close>

definition hex_char :: "nat \<Rightarrow> char" where
  "hex_char n = ''0123456789ABCDEF'' ! n"

definition uri_unreserved :: "char \<Rightarrow> bool" where
  \<open>uri_unreserved c =
     (c \<in> set ''ABCDEFGHIJKLMNOPQRSTUVWXYZabcdefghijklmnopqrstuvwxyz0123456789-_.!~*'()'')\<close>

definition encodeURIComponent :: "string \<Rightarrow> string" where
  "encodeURIComponent s =
     concat (map (\<lambda>c. if uri_unreserved c then [c]
                       else [CHR ''%'', hex_char (of_char c div 16), hex_char (of_char c mod 16)]) s)"

definition search_request :: "string \<Rightarrow> request" where
  "search_request query = http_get (''/menu/api/items/?search='' @ encodeURIComponent query)"

definition cart_count_request :: request where
  "cart_count_request = http_get ''/orders/api/cart/count/''"

definition notifications_request :: request where
  "notifications_request = http_get ''/dashboard/api/notifications/''"

definition order_stats_request :: request where
  "order_stats_request = http_get ''/dashboard/api/order-stats/''"

section \<open>The operations of the class Dashboard\<close>

subsection \<open>Loading indicator and toasts\<close>

definition loading_markup :: "string \<Rightarrow> string" where
  \<open>loading_markup message =
     ''\<newline>            <div class="d-flex align-items-center">'' @
     ''\<newline>                <div class="spinner-border spinner-border-sm me-2" role="status">'' @
     ''\<newline>                    <span class="visually-hidden">Loading...</span>'' @
     ''\<newline>                </div>'' @
     ''\<newline>                '' @
     message @
     ''\<newline>            </div>'' @
     ''\<newline>        ''\<close>

definition showLoading :: "string \<Rightarrow> world \<Rightarrow> world" where
  "showLoading message w =
     (let loadingElement =
            (case loading_indicator w of
               None \<Rightarrow>
                 \<lparr>loading_class =
                    ''position-fixed top-50 start-50 translate-middle bg-primary text-white p-3 rounded shadow'',
                  loading_zindex = ''9999'', loading_html = [], loading_display = []\<rparr>
             | Some l \<Rightarrow> l)
      in w\<lparr>loading_indicator :=
             Some (loadingElement\<lparr>loading_html := loading_markup message,
                                   loading_display := ''block''\<rparr>)\<rparr>)"

definition hideLoading :: "world \<Rightarrow> world" where
  "hideLoading w =
     (case loading_indicator w of
        None \<Rightarrow> w
      | Some l \<Rightarrow> w\<lparr>loading_indicator := Some (l\<lparr>loading_display := ''none''\<rparr>)\<rparr>)"

definition toastHTML :: "string \<Rightarrow> string \<Rightarrow> jsval \<Rightarrow> string" where
  \<open>toastHTML toastId bgClass message =
     ''\<newline>            <div id="'' @
     toastId @
     ''" class="toast '' @
     bgClass @
     '' text-white" role="alert">'' @
     ''\<newline>                <div class="toast-body d-flex justify-content-between align-items-center">'' @
     ''\<newline>                    '' @
     to_string message @
     ''\<newline>                    <button type="button" class="btn-close btn-close-white ms-2" data-bs-dismiss="toast"></button>'' @
     ''\<newline>                </div>'' @
     ''\<newline>            </div>'' @
     ''\<newline>        ''\<close>

text \<open>
  \<^verbatim>\<open>showToast\<close> inserts the toast at the end of the container, which it creates when
  the page has none. It then hands the element to Bootstrap (\<^verbatim>\<open>new bootstrap.Toast\<close>,
  \<^verbatim>\<open>show\<close>) and removes it once Bootstrap reports it hidden; Bootstrap is not part of
  the sources, and that part is outside the model.
\<close>

definition showToast :: "jsval \<Rightarrow> string \<Rightarrow> world \<Rightarrow> world" where
  "showToast message type w =
     (let toastContainer =
            (case toast_container w of
               None \<Rightarrow>
                 \<lparr>toasts_class = ''position-fixed top-0 end-0 p-3'', toasts_zindex = ''9999'',
                  toasts_children = []\<rparr>
             | Some c \<Rightarrow> c);
          toastId = ''toast-'' @ show_nat (clock w);
          bgClass = (if type = ''success'' then ''bg-success''
                     else if type = ''error'' then ''bg-danger'' else ''bg-info'')
      in w\<lparr>toast_container :=
             Some (toastContainer\<lparr>toasts_children :=
                     toasts_children toastContainer @ [toastHTML toastId bgClass message]\<rparr>)\<rparr>)"

subsection \<open>Cart badge and cart total\<close>

definition set_badge :: "jsval \<Rightarrow> badge \<Rightarrow> badge" where
  "set_badge count b =
     b\<lparr>badge_text := text_content count,
       badge_display := (if js_gt0 count then ''inline'' else ''none'')\<rparr>"

definition fetchCartCount :: "server \<Rightarrow> world \<Rightarrow> jsval \<times> world" where
  "fetchCartCount srv w =
     (let (r, w1) = fetch srv cart_count_request w
      in case r of
           Json data \<Rightarrow>
             if nullish data then (JNum 0, console_error ''Error fetching cart count:'' w1)
             else (js_or (js_prop data ''count'') (JNum 0), w1)
         | _ \<Rightarrow> (JNum 0, console_error ''Error fetching cart count:'' w1))"

text \<open>
  \<^verbatim>\<open>updateCartBadge(count = null)\<close>: both \<^verbatim>\<open>undefined\<close> and \<^verbatim>\<open>null\<close> take the branch that
  asks the server. The callback of that branch runs once the count is there, after the
  caller has gone on; it writes the badge only, which no caller reads or writes after
  this call, so it is applied here.
\<close>

definition updateCartBadge :: "server \<Rightarrow> jsval \<Rightarrow> world \<Rightarrow> world" where
  "updateCartBadge srv count w =
     (case cart_badge w of
        None \<Rightarrow> w
      | Some b \<Rightarrow>
          if default_to JNull count \<noteq> JNull then w\<lparr>cart_badge := Some (set_badge count b)\<rparr>
          else (let (cartCount, w1) = fetchCartCount srv w
                in w1\<lparr>cart_badge := Some (set_badge cartCount b)\<rparr>))"

definition updateCartTotal :: "jsval \<Rightarrow> world \<Rightarrow> world" where
  "updateCartTotal total' w =
     (case cart_total w of
        None \<Rightarrow> w
      | Some _ \<Rightarrow> w\<lparr>cart_total := Some (to_string total' @ '' XAF'')\<rparr>)"

subsection \<open>Cart operations\<close>



text \<open>
  \<open>confirmed\<close> is the answer of the user to \<^verbatim>\<open>confirm('Remove this item from cart?')\<close>.
\<close>

definition removeFromCart :: "selector_engine \<Rightarrow> server \<Rightarrow> bool \<Rightarrow> jsval \<Rightarrow> world \<Rightarrow> world" where
  "removeFromCart css srv confirmed menuItemId w =
     (if \<not> confirmed then w
      else
        (let (r, w1) = fetch srv (cart_remove_request (getCSRFToken w) menuItemId) w;
             caught = showToast (JStr ''Error removing item from cart'') ''error''
                        (console_error ''Remove from cart error:'' w1)
         in case r of
              Json data \<Rightarrow>
                if nullish data then caught
                else if truthy (js_prop data ''success'') then
                  (case remove_cart_item css (to_string menuItemId) w1 of
                     None \<Rightarrow> caught
                   | Some w2 \<Rightarrow>
                       (let w3 = updateCartBadge srv (js_prop data ''cart_count'') w2;
                            w4 = updateCartTotal (js_prop data ''cart_total'') w3
                        in showToast (JStr ''Item removed from cart'') ''success'' w4))
                else
                  showToast (js_or (js_prop data ''message'') (JStr ''Failed to remove item''))
                    ''error'' w1
            | _ \<Rightarrow> caught))"

subsection \<open>Order operations\<close>

definition schedule_reload :: "world \<Rightarrow> world" where
  "schedule_reload w = w\<lparr>reloads := reloads w @ [clock w + 1000]\<rparr>"


text \<open>
  \<open>confirmed\<close> is the answer to \<^verbatim>\<open>confirm('Are you sure you want to cancel this order?')\<close>.
\<close>

definition cancelOrder :: "server \<Rightarrow> bool \<Rightarrow> jsval \<Rightarrow> world \<Rightarrow> world" where
  "cancelOrder srv confirmed orderId w =
     (if \<not> confirmed then w
      else
        (let w1 = showLoading ''Cancelling order...'' w;
             (r, w2) = fetch srv (order_cancel_request (getCSRFToken w1) orderId) w1;
             caught = showToast (JStr ''Error cancelling order'') ''error''
                        (console_error ''Cancel order error:'' w2);
             w3 = (case r of
                     Json data \<Rightarrow>
                       if nullish data then caught
                       else if truthy (js_prop data ''success'') then
                         schedule_reload
                           (showToast (JStr ''Order cancelled successfully'') ''success'' w2)
                       else
                         showToast (js_or (js_prop data ''message'') (JStr ''Failed to cancel order''))
                           ''error'' w2
                   | _ \<Rightarrow> caught)
         in hideLoading w3))"

subsection \<open>Search\<close>

definition no_items_markup :: string where
  \<open>no_items_markup = ''<div class="text-center p-3">No items found</div>''\<close>

text \<open>One row of the result list, for an item that is neither null nor undefined.\<close>

definition search_row_markup :: "jsval \<Rightarrow> string" where
  \<open>search_row_markup item =
     ''\<newline>                <div class="search-result-item p-2 border-bottom">'' @
     ''\<newline>                    <div class="d-flex align-items-center">'' @
     ''\<newline>                        <img src="'' @
     to_string (js_or (js_prop item ''image'') (JStr ''/static/images/placeholder.jpg'')) @
     ''" '' @
     ''\<newline>                             alt="'' @
     to_string (js_prop item ''name'') @
     ''" class="rounded me-2" width="40" height="40">'' @
     ''\<newline>                        <div class="flex-grow-1">'' @
     ''\<newline>                            <h6 class="mb-0">'' @
     to_string (js_prop item ''name'') @
     ''</h6>'' @
     ''\<newline>                            <small class="text-muted">'' @
     to_string (js_prop item ''price'') @
     '' XAF</small>'' @
     ''\<newline>                        </div>'' @
     ''\<newline>                        <button class="btn btn-sm btn-primary add-to-cart-btn" '' @
     ''\<newline>                                data-menu-item-id="'' @
     to_string (js_prop item ''id'') @
     ''">'' @
     ''\<newline>                            <i class="bi bi-plus"></i>'' @
     ''\<newline>                        </button>'' @
     ''\<newline>                    </div>'' @
     ''\<newline>                </div>'' @
     ''\<newline>            ''\<close>

text \<open>\<open>None\<close> when reading \<^verbatim>\<open>item.image\<close> throws.\<close>

definition search_row :: "jsval \<Rightarrow> string option" where
  "search_row item = (if nullish item then None else Some (search_row_markup item))"

text \<open>The array \<^verbatim>\<open>items.map(item => ...)\<close>, before \<^verbatim>\<open>join('')\<close>.\<close>

definition search_rows :: "jsval list \<Rightarrow> string list option" where
  "search_rows xs = those (map search_row xs)"

text \<open>
  \<^verbatim>\<open>displaySearchResults(items)\<close>; \<open>None\<close> when it throws a TypeError (\<open>items\<close> has no
  \<^verbatim>\<open>length\<close> or no \<^verbatim>\<open>map\<close>, or an item is null), which it does before it writes anything.
\<close>

definition displaySearchResults :: "jsval \<Rightarrow> world \<Rightarrow> world option" where
  "displaySearchResults items w =
     (case search_results w of
        None \<Rightarrow> Some w
      | Some resultsContainer \<Rightarrow>
          if nullish items then None
          else if js_prop items ''length'' = JNum 0 then
            Some (w\<lparr>search_results :=
                     Some (class_remove ''d-none''
                             (resultsContainer\<lparr>panel_html := no_items_markup\<rparr>))\<rparr>)
          else
            (case items of
               JArr xs \<Rightarrow>
                 (case search_rows xs of
                    None \<Rightarrow> None
                  | Some rows \<Rightarrow>
                      Some (w\<lparr>search_results :=
                               Some (class_remove ''d-none''
                                       (resultsContainer\<lparr>panel_html := concat rows\<rparr>))\<rparr>))
             | _ \<Rightarrow> None))"

definition searchMenu :: "server \<Rightarrow> string \<Rightarrow> world \<Rightarrow> world" where
  "searchMenu srv query w =
     (if length query < 2 then
        (case search_results w of
           None \<Rightarrow> w
         | Some p \<Rightarrow> w\<lparr>search_results := Some (class_add ''d-none'' p)\<rparr>)
      else
        (let (r, w1) = fetch srv (search_request query) w;
             caught = console_error ''Search error:'' w1
         in case r of
              Json data \<Rightarrow>
                if nullish data then caught
                else (case displaySearchResults (js_prop data ''items'') w1 of
                        None \<Rightarrow> caught
                      | Some w2 \<Rightarrow> w2)
            | _ \<Rightarrow> caught))"

subsection \<open>Notifications and order statistics\<close>

definition updateNotificationBadge :: "jsval \<Rightarrow> world \<Rightarrow> world" where
  "updateNotificationBadge count w =
     (case notification_badge w of
        None \<Rightarrow> w
      | Some b \<Rightarrow> w\<lparr>notification_badge := Some (set_badge count b)\<rparr>)"

definition notifications_header :: string where
  \<open>notifications_header =
     ''<li class="dropdown-header">Notifications</li><li><hr class="dropdown-divider"></li>''\<close>

definition no_notifications_markup :: string where
  \<open>no_notifications_markup =
     ''<li class="dropdown-item-text text-center text-muted">No new notifications</li>''\<close>

text \<open>One entry of the menu, for a notification that is neither null nor undefined.\<close>

definition notification_entry_markup :: "jsval \<Rightarrow> string" where
  \<open>notification_entry_markup n =
     ''\<newline>                    <li>'' @
     ''\<newline>                        <a class="dropdown-item notification-item" href="'' @
     to_string (js_prop n ''url'') @
     ''">'' @
     ''\<newline>                            <div class="d-flex justify-content-between align-items-start">'' @
     ''\<newline>                                <div>'' @
     ''\<newline>                                    <h6 class="dropdown-header">'' @
     to_string (js_prop n ''title'') @
     ''</h6>'' @
     ''\<newline>                                    <p class="mb-0 small">'' @
     to_string (js_prop n ''message'') @
     ''</p>'' @
     ''\<newline>                                </div>'' @
     ''\<newline>                                <small class="text-muted">'' @
     to_string (js_prop n ''time'') @
     ''</small>'' @
     ''\<newline>                            </div>'' @
     ''\<newline>                        </a>'' @
     ''\<newline>                    </li>'' @
     ''\<newline>                ''
     \<close>

text \<open>\<open>None\<close> when reading \<^verbatim>\<open>notification.url\<close> throws.\<close>

definition notification_entry :: "jsval \<Rightarrow> string option" where
  "notification_entry n = (if nullish n then None else Some (notification_entry_markup n))"

text \<open>
  \<^verbatim>\<open>displayNotifications(notifications)\<close>; \<open>None\<close> when it throws a TypeError (no
  \<^verbatim>\<open>length\<close> or no \<^verbatim>\<open>forEach\<close>, or a null entry), which leaves the menu as it was,
  since \<^verbatim>\<open>menu.innerHTML\<close> is assigned last.
\<close>

definition displayNotifications :: "jsval \<Rightarrow> world \<Rightarrow> world option" where
  "displayNotifications notifications w =
     (case notification_menu w of
        None \<Rightarrow> Some w
      | Some _ \<Rightarrow>
          if nullish notifications then None
          else if js_prop notifications ''length'' = JNum 0 then
            Some (w\<lparr>notification_menu := Some (notifications_header @ no_notifications_markup)\<rparr>)
          else
            (case notifications of
               JArr ns \<Rightarrow>
                 (case those (map notification_entry ns) of
                    None \<Rightarrow> None
                  | Some entries \<Rightarrow>
                      Some (w\<lparr>notification_menu := Some (notifications_header @ concat entries)\<rparr>))
             | _ \<Rightarrow> None))"

definition loadNotifications :: "server \<Rightarrow> world \<Rightarrow> world" where
  "loadNotifications srv w =
     (let (r, w1) = fetch srv notifications_request w;
          caught = console_error ''Error loading notifications:''
      in case r of
           Json data \<Rightarrow>
             if nullish data then caught w1
             else
               (let notifications = js_prop data ''notifications''
                in if nullish notifications then caught w1
                   else
                     (let w2 = updateNotificationBadge (js_prop notifications ''length'') w1
                      in case displayNotifications notifications w2 of
                           None \<Rightarrow> caught w2
                         | Some w3 \<Rightarrow> w3))
         | _ \<Rightarrow> caught w1)"

text \<open>
  \<^verbatim>\<open>Object.keys(data)\<close> with the values \<^verbatim>\<open>data[key]\<close>. The script visits integer-like
  keys first; each key writes to the element of its own id, so the order of the visits
  does not change the result.
\<close>

fun own_entries :: "jsval \<Rightarrow> (string \<times> jsval) list" where
  "own_entries (JObj kvs) = map (\<lambda>k. (k, js_prop (JObj kvs) k)) (map fst kvs)"
| "own_entries (JArr xs) = zip (map show_nat [0..<length xs]) xs"
| "own_entries (JStr s) = zip (map show_nat [0..<length s]) (map (\<lambda>c. JStr [c]) s)"
| "own_entries _ = []"

definition set_stat :: "world \<Rightarrow> string \<times> jsval \<Rightarrow> world" where
  "set_stat w kv = w\<lparr>stat_els := set_first (fst kv) (text_content (snd kv)) (stat_els w)\<rparr>"

definition updateOrderStats :: "server \<Rightarrow> world \<Rightarrow> world" where
  "updateOrderStats srv w =
     (let (r, w1) = fetch srv order_stats_request w;
          caught = console_error ''Error updating order stats:'' w1
      in case r of
           Json data \<Rightarrow>
             if nullish data then caught
             else foldl set_stat w1 (own_entries data)
         | _ \<Rightarrow> caught)"

text \<open>
  The body of \<^verbatim>\<open>loadInitialData\<close>, and of the callback of \<^verbatim>\<open>setInterval\<close> in
  \<^verbatim>\<open>startRealTimeUpdates\<close>, which is the same three calls.
\<close>

definition loadInitialData :: "server \<Rightarrow> world \<Rightarrow> world" where
  "loadInitialData srv w =
     updateOrderStats srv (loadNotifications srv (updateCartBadge srv JUndefined w))"

section \<open>Timers: the debounced search and the polling\<close>

text \<open>
  The constructor loads the initial data, starts a \<^verbatim>\<open>setInterval\<close> of 30000 ms, and
  listens for \<^verbatim>\<open>input\<close> events on \<^verbatim>\<open>#menu-search\<close> when the page has that element. Each
  input event clears the timer held by \<^verbatim>\<open>searchTimeout\<close> and starts one of 300 ms, whose
  callback reads the value of the field when it runs.

  Timers are ideal here: a callback runs at its due time, and before an event that
  arrives at that same time. Of two timers due together the interval runs first.
\<close>

datatype callback = SearchCallback string | PollCallback

record page =
  doc :: world
  search_input :: "string option"  \<comment> \<open>value of \<^verbatim>\<open>#menu-search\<close>; \<open>None\<close> without it\<close>
  search_timeout :: "nat option"  \<comment> \<open>due time of the timer held by \<^verbatim>\<open>searchTimeout\<close>\<close>
  poll_interval :: "nat option"  \<comment> \<open>next due time of the interval\<close>
  fired :: "(nat \<times> callback) list"  \<comment> \<open>the timer callbacks run so far, with their times\<close>

text \<open>\<^verbatim>\<open>new Dashboard()\<close> on a page \<open>w\<close> whose search field holds \<open>field\<close>.\<close>

definition new_Dashboard :: "server \<Rightarrow> string option \<Rightarrow> world \<Rightarrow> page" where
  "new_Dashboard srv field w =
     \<lparr>doc = loadInitialData srv w, search_input = field, search_timeout = None,
      poll_interval = Some (clock w + 30000), fired = []\<rparr>"

definition fire_poll :: "server \<Rightarrow> page \<Rightarrow> page" where
  "fire_poll srv pg =
     (case poll_interval pg of
        None \<Rightarrow> pg
      | Some d \<Rightarrow>
          pg\<lparr>doc := loadInitialData srv ((doc pg)\<lparr>clock := d\<rparr>),
             poll_interval := Some (d + 30000),
             fired := fired pg @ [(d, PollCallback)]\<rparr>)"

definition fire_search :: "server \<Rightarrow> page \<Rightarrow> page" where
  "fire_search srv pg =
     (case search_timeout pg of
        None \<Rightarrow> pg
      | Some d \<Rightarrow>
          (let v = (case search_input pg of Some v \<Rightarrow> v | None \<Rightarrow> [])
           in pg\<lparr>doc := searchMenu srv v ((doc pg)\<lparr>clock := d\<rparr>),
                 search_timeout := None,
                 fired := fired pg @ [(d, SearchCallback v)]\<rparr>))"

text \<open>The timer that is due first: its time, and whether it is the interval.\<close>

definition next_timer :: "page \<Rightarrow> (nat \<times> bool) option" where
  "next_timer pg =
     (case (poll_interval pg, search_timeout pg) of
        (None, None) \<Rightarrow> None
      | (Some p, None) \<Rightarrow> Some (p, True)
      | (None, Some s) \<Rightarrow> Some (s, False)
      | (Some p, Some s) \<Rightarrow> if p \<le> s then Some (p, True) else Some (s, False))"

text \<open>Run, in the order of their due times, the callbacks due at or before \<open>T\<close>.\<close>

function run_timers :: "server \<Rightarrow> nat \<Rightarrow> page \<Rightarrow> page" where
  "run_timers srv T pg =
     (case next_timer pg of
        None \<Rightarrow> pg
      | Some (d, is_poll) \<Rightarrow>
          if T < d then pg
          else run_timers srv T (if is_poll then fire_poll srv pg else fire_search srv pg))"
  by pat_completeness auto
termination
  by (relation "measure (\<lambda>(srv, T, pg).
        (case poll_interval pg of None \<Rightarrow> 0 | Some p \<Rightarrow> T + 1 - p) +
        (case search_timeout pg of None \<Rightarrow> 0 | Some s \<Rightarrow> 1))")
    (auto simp: next_timer_def fire_poll_def fire_search_def Let_def
          split: option.splits if_splits)

declare run_timers.simps [simp del]

text \<open>An \<^verbatim>\<open>input\<close> event on the search field at time \<open>t\<close>, after which it holds \<open>txt\<close>.\<close>

definition on_input :: "server \<Rightarrow> page \<Rightarrow> nat \<times> string \<Rightarrow> page" where
  "on_input srv pg ev =
     (let pg1 = run_timers srv (fst ev) pg
      in case search_input pg1 of
           None \<Rightarrow> pg1
         | Some _ \<Rightarrow>
             pg1\<lparr>doc := (doc pg1)\<lparr>clock := fst ev\<rparr>,
                  search_input := Some (snd ev),
                  search_timeout := Some (fst ev + 300)\<rparr>)"

definition typing :: "server \<Rightarrow> page \<Rightarrow> (nat \<times> string) list \<Rightarrow> page" where
  "typing srv pg evs = foldl (on_input srv) pg evs"

text \<open>Consecutive events less than 300 ms apart.\<close>

fun paced :: "(nat \<times> string) list \<Rightarrow> bool" where
  "paced [] = True"
| "paced [e] = True"
| "paced (e1 # e2 # es) = (fst e1 \<le> fst e2 \<and> fst e2 < fst e1 + 300 \<and> paced (e2 # es))"

subsection \<open>Observations\<close>

text \<open>The toasts in the container, oldest first.\<close>

definition toast_list :: "world \<Rightarrow> string list" where
  "toast_list w = (case toast_container w of None \<Rightarrow> [] | Some c \<Rightarrow> toasts_children c)"

text \<open>The cart as the page shows it: badge, quantities, item nodes, total.\<close>

definition cart_dom :: "world \<Rightarrow> badge option \<times> (string \<times> string) list \<times> string list \<times> string option" where
  "cart_dom w = (cart_badge w, quantity_els w, cart_item_els w, cart_total w)"

text \<open>The elements that belong neither to the cart nor to the toasts or the loading indicator.\<close>

definition other_dom :: "world \<Rightarrow> panel option \<times> badge option \<times> string option \<times> (string \<times> string) list" where
  "other_dom w = (search_results w, notification_badge w, notification_menu w, stat_els w)"


text \<open>The toast that \<^verbatim>\<open>showToast(message, 'error')\<close> inserts on the page \<open>w\<close>.\<close>

definition error_toast :: "world \<Rightarrow> jsval \<Rightarrow> string" where
  "error_toast w message = toastHTML (''toast-'' @ show_nat (clock w)) ''bg-danger'' message"

definition is_search_callback :: "nat \<times> callback \<Rightarrow> bool" where
  "is_search_callback e = (case snd e of SearchCallback _ \<Rightarrow> True | PollCallback \<Rightarrow> False)"

definition search_calls :: "page \<Rightarrow> (nat \<times> callback) list" where
  "search_calls pg = filter is_search_callback (fired pg)"

definition is_search_request :: "nat \<times> request \<Rightarrow> bool" where
  "is_search_request e = (take 24 (req_url (snd e)) = ''/menu/api/items/?search='')"

definition search_requests :: "world \<Rightarrow> (nat \<times> request) list" where
  "search_requests w = filter is_search_request (requests w)"

text \<open>No search timer is due at or before \<open>T\<close>.\<close>

definition not_due :: "nat \<Rightarrow> page \<Rightarrow> bool" where
  "not_due T pg = (case search_timeout pg of None \<Rightarrow> True | Some d \<Rightarrow> T < d)"

text \<open>The times at which a given request was made.\<close>

definition request_times :: "request \<Rightarrow> world \<Rightarrow> nat list" where
  "request_times rq w = map fst (filter (\<lambda>e. snd e = rq) (requests w))"


text \<open>The replies to the requests \<open>rq\<close> that the page has made, oldest first.\<close>

definition replies_to :: "request \<Rightarrow> server \<Rightarrow> world \<Rightarrow> reply list" where
  "replies_to rq srv w =
     map (\<lambda>ie. srv (fst ie) rq) (filter (\<lambda>ie. snd (snd ie) = rq) (enumerate 0 (requests w)))"










section \<open>A sample page\<close>

text \<open>
  A cart page with one item (id 7, quantity 1), every element the script looks up
  except the loading indicator and the toast container, and nothing sent yet.
\<close>

definition demo_page :: world where
  "demo_page =
     \<lparr>clock = 1000, csrf_field = Some ''tok'', csrf_meta = None,
      cart_badge = Some \<lparr>badge_text = ''2'', badge_display = ''inline''\<rparr>,
      quantity_els = [(''7'', ''1'')], cart_item_els = [''7''],
      cart_total = Some ''1500 XAF'',
      search_results = Some \<lparr>panel_html = [], panel_classes = [''list-group'']\<rparr>,
      notification_badge = Some \<lparr>badge_text = ''0'', badge_display = ''none''\<rparr>,
      notification_menu = Some [], stat_els = [(''pending'', ''0'')],
      loading_indicator = None, toast_container = None,
      requests = [], console = [], reloads = []\<rparr>"



text \<open>A server that cannot be reached.\<close>

definition offline :: server where
  "offline k rq = NetworkFailure"









section \<open>Properties\<close>


subsection \<open>What each step leaves alone\<close>

lemma showLoading_frame [simp]:
  "clock (showLoading m w) = clock w"
  "csrf_field (showLoading m w) = csrf_field w"
  "csrf_meta (showLoading m w) = csrf_meta w"
  "cart_badge (showLoading m w) = cart_badge w"
  "quantity_els (showLoading m w) = quantity_els w"
  "cart_item_els (showLoading m w) = cart_item_els w"
  "cart_total (showLoading m w) = cart_total w"
  "search_results (showLoading m w) = search_results w"
  "notification_badge (showLoading m w) = notification_badge w"
  "notification_menu (showLoading m w) = notification_menu w"
  "stat_els (showLoading m w) = stat_els w"
  "toast_container (showLoading m w) = toast_container w"
  "requests (showLoading m w) = requests w"
  "console (showLoading m w) = console w"
  "reloads (showLoading m w) = reloads w"
  by (simp_all add: showLoading_def Let_def)

lemma hideLoading_frame [simp]:
  "clock (hideLoading w) = clock w"
  "csrf_field (hideLoading w) = csrf_field w"
  "csrf_meta (hideLoading w) = csrf_meta w"
  "cart_badge (hideLoading w) = cart_badge w"
  "quantity_els (hideLoading w) = quantity_els w"
  "cart_item_els (hideLoading w) = cart_item_els w"
  "cart_total (hideLoading w) = cart_total w"
  "search_results (hideLoading w) = search_results w"
  "notification_badge (hideLoading w) = notification_badge w"
  "notification_menu (hideLoading w) = notification_menu w"
  "stat_els (hideLoading w) = stat_els w"
  "toast_container (hideLoading w) = toast_container w"
  "requests (hideLoading w) = requests w"
  "console (hideLoading w) = console w"
  "reloads (hideLoading w) = reloads w"
  by (simp_all add: hideLoading_def split: option.splits)

lemma showToast_frame [simp]:
  "clock (showToast m t w) = clock w"
  "csrf_field (showToast m t w) = csrf_field w"
  "csrf_meta (showToast m t w) = csrf_meta w"
  "cart_badge (showToast m t w) = cart_badge w"
  "quantity_els (showToast m t w) = quantity_els w"
  "cart_item_els (showToast m t w) = cart_item_els w"
  "cart_total (showToast m t w) = cart_total w"
  "search_results (showToast m t w) = search_results w"
  "notification_badge (showToast m t w) = notification_badge w"
  "notification_menu (showToast m t w) = notification_menu w"
  "stat_els (showToast m t w) = stat_els w"
  "loading_indicator (showToast m t w) = loading_indicator w"
  "requests (showToast m t w) = requests w"
  "console (showToast m t w) = console w"
  "reloads (showToast m t w) = reloads w"
  by (simp_all add: showToast_def Let_def)

lemma sent_frame [simp]:
  "clock (sent rq w) = clock w"
  "csrf_field (sent rq w) = csrf_field w"
  "csrf_meta (sent rq w) = csrf_meta w"
  "cart_badge (sent rq w) = cart_badge w"
  "quantity_els (sent rq w) = quantity_els w"
  "cart_item_els (sent rq w) = cart_item_els w"
  "cart_total (sent rq w) = cart_total w"
  "search_results (sent rq w) = search_results w"
  "notification_badge (sent rq w) = notification_badge w"
  "notification_menu (sent rq w) = notification_menu w"
  "stat_els (sent rq w) = stat_els w"
  "loading_indicator (sent rq w) = loading_indicator w"
  "toast_container (sent rq w) = toast_container w"
  "console (sent rq w) = console w"
  "reloads (sent rq w) = reloads w"
  by (simp_all add: sent_def)

lemma console_error_frame [simp]:
  "clock (console_error l w) = clock w"
  "csrf_field (console_error l w) = csrf_field w"
  "csrf_meta (console_error l w) = csrf_meta w"
  "cart_badge (console_error l w) = cart_badge w"
  "quantity_els (console_error l w) = quantity_els w"
  "cart_item_els (console_error l w) = cart_item_els w"
  "cart_total (console_error l w) = cart_total w"
  "search_results (console_error l w) = search_results w"
  "notification_badge (console_error l w) = notification_badge w"
  "notification_menu (console_error l w) = notification_menu w"
  "stat_els (console_error l w) = stat_els w"
  "loading_indicator (console_error l w) = loading_indicator w"
  "toast_container (console_error l w) = toast_container w"
  "requests (console_error l w) = requests w"
  "reloads (console_error l w) = reloads w"
  by (simp_all add: console_error_def)

lemma updateCartTotal_frame [simp]:
  "clock (updateCartTotal v w) = clock w"
  "csrf_field (updateCartTotal v w) = csrf_field w"
  "csrf_meta (updateCartTotal v w) = csrf_meta w"
  "cart_badge (updateCartTotal v w) = cart_badge w"
  "quantity_els (updateCartTotal v w) = quantity_els w"
  "cart_item_els (updateCartTotal v w) = cart_item_els w"
  "search_results (updateCartTotal v w) = search_results w"
  "notification_badge (updateCartTotal v w) = notification_badge w"
  "notification_menu (updateCartTotal v w) = notification_menu w"
  "stat_els (updateCartTotal v w) = stat_els w"
  "loading_indicator (updateCartTotal v w) = loading_indicator w"
  "toast_container (updateCartTotal v w) = toast_container w"
  "requests (updateCartTotal v w) = requests w"
  "console (updateCartTotal v w) = console w"
  "reloads (updateCartTotal v w) = reloads w"
  by (simp_all add: updateCartTotal_def split: option.splits)

lemma schedule_reload_frame [simp]:
  "clock (schedule_reload w) = clock w"
  "csrf_field (schedule_reload w) = csrf_field w"
  "csrf_meta (schedule_reload w) = csrf_meta w"
  "cart_badge (schedule_reload w) = cart_badge w"
  "quantity_els (schedule_reload w) = quantity_els w"
  "cart_item_els (schedule_reload w) = cart_item_els w"
  "cart_total (schedule_reload w) = cart_total w"
  "search_results (schedule_reload w) = search_results w"
  "notification_badge (schedule_reload w) = notification_badge w"
  "notification_menu (schedule_reload w) = notification_menu w"
  "stat_els (schedule_reload w) = stat_els w"
  "loading_indicator (schedule_reload w) = loading_indicator w"
  "toast_container (schedule_reload w) = toast_container w"
  "requests (schedule_reload w) = requests w"
  "console (schedule_reload w) = console w"
  by (simp_all add: schedule_reload_def)

lemma updateNotificationBadge_frame [simp]:
  "clock (updateNotificationBadge c w) = clock w"
  "csrf_field (updateNotificationBadge c w) = csrf_field w"
  "csrf_meta (updateNotificationBadge c w) = csrf_meta w"
  "cart_badge (updateNotificationBadge c w) = cart_badge w"
  "quantity_els (updateNotificationBadge c w) = quantity_els w"
  "cart_item_els (updateNotificationBadge c w) = cart_item_els w"
  "cart_total (updateNotificationBadge c w) = cart_total w"
  "search_results (updateNotificationBadge c w) = search_results w"
  "notification_menu (updateNotificationBadge c w) = notification_menu w"
  "stat_els (updateNotificationBadge c w) = stat_els w"
  "loading_indicator (updateNotificationBadge c w) = loading_indicator w"
  "toast_container (updateNotificationBadge c w) = toast_container w"
  "requests (updateNotificationBadge c w) = requests w"
  "console (updateNotificationBadge c w) = console w"
  "reloads (updateNotificationBadge c w) = reloads w"
  by (simp_all add: updateNotificationBadge_def split: option.splits)





lemma toast_list_frames [simp]:
  "toast_list (showLoading m w) = toast_list w"
  "toast_list (hideLoading w) = toast_list w"
  "toast_list (sent rq w) = toast_list w"
  "toast_list (console_error l w) = toast_list w"
  "toast_list (updateCartTotal v w) = toast_list w"
  "toast_list (schedule_reload w) = toast_list w"
  "toast_list (updateNotificationBadge c w) = toast_list w"
  by (simp_all add: toast_list_def)

lemma getCSRFToken_frames [simp]:
  "getCSRFToken (showLoading m w) = getCSRFToken w"
  "getCSRFToken (sent rq w) = getCSRFToken w"
  by (simp_all add: getCSRFToken_def)

lemma answer_frames [simp]:
  "answer srv rq (showLoading m w) = answer srv rq w"
  "answer srv rq (showToast v t w) = answer srv rq w"
  "answer srv rq (console_error l w) = answer srv rq w"
  by (simp_all add: answer_def)

lemma not_default_null [simp]: "(default_to JNull c \<noteq> JNull) = (\<not> nullish c)"
  by (cases c) (simp_all add: default_to_def)

lemma fetchCartCount_frame [simp]:
  "clock (snd (fetchCartCount srv w)) = clock w"
  "csrf_field (snd (fetchCartCount srv w)) = csrf_field w"
  "csrf_meta (snd (fetchCartCount srv w)) = csrf_meta w"
  "cart_badge (snd (fetchCartCount srv w)) = cart_badge w"
  "quantity_els (snd (fetchCartCount srv w)) = quantity_els w"
  "cart_item_els (snd (fetchCartCount srv w)) = cart_item_els w"
  "cart_total (snd (fetchCartCount srv w)) = cart_total w"
  "search_results (snd (fetchCartCount srv w)) = search_results w"
  "notification_badge (snd (fetchCartCount srv w)) = notification_badge w"
  "notification_menu (snd (fetchCartCount srv w)) = notification_menu w"
  "stat_els (snd (fetchCartCount srv w)) = stat_els w"
  "loading_indicator (snd (fetchCartCount srv w)) = loading_indicator w"
  "toast_container (snd (fetchCartCount srv w)) = toast_container w"
  "reloads (snd (fetchCartCount srv w)) = reloads w"
  "requests (snd (fetchCartCount srv w)) = requests w @ [(clock w, cart_count_request)]"
  by (simp_all add: fetchCartCount_def fetch_def sent_def split: reply.splits)

lemma updateCartBadge_frame [simp]:
  "clock (updateCartBadge srv c w) = clock w"
  "csrf_field (updateCartBadge srv c w) = csrf_field w"
  "csrf_meta (updateCartBadge srv c w) = csrf_meta w"
  "quantity_els (updateCartBadge srv c w) = quantity_els w"
  "cart_item_els (updateCartBadge srv c w) = cart_item_els w"
  "cart_total (updateCartBadge srv c w) = cart_total w"
  "search_results (updateCartBadge srv c w) = search_results w"
  "notification_badge (updateCartBadge srv c w) = notification_badge w"
  "notification_menu (updateCartBadge srv c w) = notification_menu w"
  "stat_els (updateCartBadge srv c w) = stat_els w"
  "loading_indicator (updateCartBadge srv c w) = loading_indicator w"
  "toast_container (updateCartBadge srv c w) = toast_container w"
  "reloads (updateCartBadge srv c w) = reloads w"
  by (simp_all add: updateCartBadge_def split_beta split: option.splits)


lemma updateCartBadge_requests:
  "requests (updateCartBadge srv c w) =
     requests w @ (if cart_badge w \<noteq> None \<and> nullish c then [(clock w, cart_count_request)] else [])"
  by (simp add: updateCartBadge_def split_beta split: option.splits)

lemma toast_list_updateCartBadge [simp]: "toast_list (updateCartBadge srv c w) = toast_list w"
  by (simp add: toast_list_def)




subsection \<open>Adding to the cart\<close>





subsection \<open>Declined confirmations\<close>

text \<open>
  C5. When the user declines the confirmation prompt, \<^verbatim>\<open>removeFromCart\<close> and
  \<^verbatim>\<open>cancelOrder\<close> return at once: the page is what it was, with no request made, no
  toast, no loading indicator, and the badge, the total and the cart items untouched.
\<close>

theorem declined_is_noop:
  "removeFromCart css srv False menuItemId w = w \<and> cancelOrder srv False orderId w = w"
  by (simp add: removeFromCart_def cancelOrder_def)

subsection \<open>Short search queries\<close>

text \<open>
  C3. For a query of fewer than 2 characters, \<^verbatim>\<open>searchMenu\<close> makes no request; it adds
  the class \<^verbatim>\<open>d-none\<close> to the result panel when the page has one, and changes nothing
  else.
\<close>

theorem searchMenu_short_query:
  "length query < 2 \<Longrightarrow>
     searchMenu srv query w =
       w\<lparr>search_results := map_option (class_add ''d-none'') (search_results w)\<rparr> \<and>
     requests (searchMenu srv query w) = requests w"
  by (cases "search_results w") (simp_all add: searchMenu_def)

theorem searchMenu_short_query_witness:
  "length ''a'' < (2::nat) \<and>
   searchMenu offline ''a'' demo_page =
     demo_page\<lparr>search_results :=
                 Some \<lparr>panel_html = [], panel_classes = [''list-group'', ''d-none'']\<rparr>\<rparr> \<and>
   requests (searchMenu offline ''a'' demo_page) = []"
  using searchMenu_short_query [of "''a''" offline demo_page]
  by (simp add: demo_page_def class_add_def)

subsection \<open>The operations, by reply\<close>





lemma cart_dom_frames [simp]:
  "cart_dom (showLoading m w) = cart_dom w"
  "cart_dom (hideLoading w) = cart_dom w"
  "cart_dom (showToast v t w) = cart_dom w"
  "cart_dom (sent rq w) = cart_dom w"
  "cart_dom (console_error l w) = cart_dom w"
  by (simp_all add: cart_dom_def)

lemma other_dom_frames [simp]:
  "other_dom (showLoading m w) = other_dom w"
  "other_dom (hideLoading w) = other_dom w"
  "other_dom (showToast v t w) = other_dom w"
  "other_dom (sent rq w) = other_dom w"
  "other_dom (console_error l w) = other_dom w"
  "other_dom (updateCartBadge srv c w) = other_dom w"
  "other_dom (updateCartTotal v w) = other_dom w"
  by (simp_all add: other_dom_def)


subsection \<open>A refused cart mutation\<close>



subsection \<open>The quiet operations\<close>

lemma searchMenu_frame [simp]:
  "clock (searchMenu srv q w) = clock w"
  "csrf_field (searchMenu srv q w) = csrf_field w"
  "csrf_meta (searchMenu srv q w) = csrf_meta w"
  "cart_badge (searchMenu srv q w) = cart_badge w"
  "quantity_els (searchMenu srv q w) = quantity_els w"
  "cart_item_els (searchMenu srv q w) = cart_item_els w"
  "cart_total (searchMenu srv q w) = cart_total w"
  "notification_badge (searchMenu srv q w) = notification_badge w"
  "notification_menu (searchMenu srv q w) = notification_menu w"
  "stat_els (searchMenu srv q w) = stat_els w"
  "loading_indicator (searchMenu srv q w) = loading_indicator w"
  "toast_container (searchMenu srv q w) = toast_container w"
  "reloads (searchMenu srv q w) = reloads w"
  by (simp_all add: searchMenu_def fetch_def displaySearchResults_def Let_def
        split: option.splits reply.splits jsval.splits)

lemma set_stats_frame [simp]:
  "clock (foldl set_stat w es) = clock w"
  "csrf_field (foldl set_stat w es) = csrf_field w"
  "csrf_meta (foldl set_stat w es) = csrf_meta w"
  "cart_badge (foldl set_stat w es) = cart_badge w"
  "quantity_els (foldl set_stat w es) = quantity_els w"
  "cart_item_els (foldl set_stat w es) = cart_item_els w"
  "cart_total (foldl set_stat w es) = cart_total w"
  "search_results (foldl set_stat w es) = search_results w"
  "notification_badge (foldl set_stat w es) = notification_badge w"
  "notification_menu (foldl set_stat w es) = notification_menu w"
  "loading_indicator (foldl set_stat w es) = loading_indicator w"
  "toast_container (foldl set_stat w es) = toast_container w"
  "requests (foldl set_stat w es) = requests w"
  "console (foldl set_stat w es) = console w"
  "reloads (foldl set_stat w es) = reloads w"
  by (induction es arbitrary: w; simp add: set_stat_def)+

lemma updateOrderStats_frame [simp]:
  "clock (updateOrderStats srv w) = clock w"
  "csrf_field (updateOrderStats srv w) = csrf_field w"
  "csrf_meta (updateOrderStats srv w) = csrf_meta w"
  "cart_badge (updateOrderStats srv w) = cart_badge w"
  "quantity_els (updateOrderStats srv w) = quantity_els w"
  "cart_item_els (updateOrderStats srv w) = cart_item_els w"
  "cart_total (updateOrderStats srv w) = cart_total w"
  "search_results (updateOrderStats srv w) = search_results w"
  "notification_badge (updateOrderStats srv w) = notification_badge w"
  "notification_menu (updateOrderStats srv w) = notification_menu w"
  "loading_indicator (updateOrderStats srv w) = loading_indicator w"
  "toast_container (updateOrderStats srv w) = toast_container w"
  "reloads (updateOrderStats srv w) = reloads w"
  by (simp_all add: updateOrderStats_def fetch_def Let_def split: reply.splits)

lemma loadNotifications_frame [simp]:
  "clock (loadNotifications srv w) = clock w"
  "csrf_field (loadNotifications srv w) = csrf_field w"
  "csrf_meta (loadNotifications srv w) = csrf_meta w"
  "cart_badge (loadNotifications srv w) = cart_badge w"
  "quantity_els (loadNotifications srv w) = quantity_els w"
  "cart_item_els (loadNotifications srv w) = cart_item_els w"
  "cart_total (loadNotifications srv w) = cart_total w"
  "search_results (loadNotifications srv w) = search_results w"
  "stat_els (loadNotifications srv w) = stat_els w"
  "loading_indicator (loadNotifications srv w) = loading_indicator w"
  "toast_container (loadNotifications srv w) = toast_container w"
  "reloads (loadNotifications srv w) = reloads w"
  by (simp_all add: loadNotifications_def fetch_def displayNotifications_def Let_def
        split: option.splits reply.splits jsval.splits)


lemma searchMenu_requests:
  "requests (searchMenu srv q w) =
     requests w @ (if length q < 2 then [] else [(clock w, search_request q)])"
  by (simp add: searchMenu_def fetch_def sent_def console_error_def displaySearchResults_def Let_def
        split: option.splits reply.splits jsval.splits)

lemma updateOrderStats_requests:
  "requests (updateOrderStats srv w) = requests w @ [(clock w, order_stats_request)]"
  by (simp add: updateOrderStats_def fetch_def sent_def console_error_def Let_def
        split: reply.splits)

lemma loadNotifications_requests:
  "requests (loadNotifications srv w) = requests w @ [(clock w, notifications_request)]"
  by (simp add: loadNotifications_def fetch_def sent_def console_error_def
        displayNotifications_def updateNotificationBadge_def Let_def
        split: option.splits reply.splits jsval.splits)


lemma toast_list_quiet [simp]:
  "toast_list (searchMenu srv q w) = toast_list w"
  "toast_list (loadNotifications srv w) = toast_list w"
  "toast_list (updateOrderStats srv w) = toast_list w"
  "toast_list (snd (fetchCartCount srv w)) = toast_list w"
  by (simp_all add: toast_list_def)


lemma error_toast_frames [simp]:
  "error_toast (showLoading m w) = error_toast w"
  "error_toast (sent rq w) = error_toast w"
  "error_toast (console_error l w) = error_toast w"
  by (simp_all add: error_toast_def fun_eq_iff)

subsection \<open>Failures and toasts\<close>




subsection \<open>The cart count\<close>




subsection \<open>Integers written in decimal\<close>















subsection \<open>A failed count\<close>



subsection \<open>Where the displayed cart values come from\<close>








subsection \<open>Search results\<close>
















subsection \<open>Requests made by the polling and by the search\<close>

lemma loadInitialData_clock [simp]: "clock (loadInitialData srv w) = clock w"
  by (simp add: loadInitialData_def)

lemma loadInitialData_requests:
  "requests (loadInitialData srv w) =
     requests w @ (if cart_badge w \<noteq> None then [(clock w, cart_count_request)] else []) @
       [(clock w, notifications_request), (clock w, order_stats_request)]"
  by (simp add: loadInitialData_def updateOrderStats_requests loadNotifications_requests
        updateCartBadge_requests)

lemma is_search_request_simps [simp]:
  "is_search_request (t, search_request q)"
  "\<not> is_search_request (t, cart_count_request)"
  "\<not> is_search_request (t, notifications_request)"
  "\<not> is_search_request (t, order_stats_request)"
  by (simp_all add: is_search_request_def search_request_def cart_count_request_def
        notifications_request_def order_stats_request_def http_get_def)

lemma search_requests_loadInitialData [simp]:
  "search_requests (loadInitialData srv w) = search_requests w"
  by (simp add: search_requests_def loadInitialData_requests)

lemma search_requests_searchMenu:
  "search_requests (searchMenu srv q w) =
     search_requests w @ (if length q < 2 then [] else [(clock w, search_request q)])"
  by (simp add: search_requests_def searchMenu_requests)

lemma search_requests_clock [simp]: "search_requests (w\<lparr>clock := t\<rparr>) = search_requests w"
  by (simp add: search_requests_def)

subsection \<open>Running the timers\<close>

lemma next_timer_search:
  "next_timer pg = Some (d, False) \<Longrightarrow> search_timeout pg = Some d"
  by (auto simp: next_timer_def split: option.splits if_splits)


lemma next_timer_poll_first:
  "next_timer pg = Some (d, True) \<Longrightarrow> search_timeout pg = Some s \<Longrightarrow> d \<le> s"
  by (auto simp: next_timer_def split: option.splits if_splits)

lemma fire_poll_search [simp]:
  "search_timeout (fire_poll srv pg) = search_timeout pg"
  "search_input (fire_poll srv pg) = search_input pg"
  "search_calls (fire_poll srv pg) = search_calls pg"
  "search_requests (doc (fire_poll srv pg)) = search_requests (doc pg)"
  "not_due T (fire_poll srv pg) = not_due T pg"
  by (simp_all add: fire_poll_def search_calls_def is_search_callback_def not_due_def
        split: option.splits)

lemma run_timers_not_due:
  "not_due T pg \<Longrightarrow>
     search_timeout (run_timers srv T pg) = search_timeout pg \<and>
     search_input (run_timers srv T pg) = search_input pg \<and>
     search_calls (run_timers srv T pg) = search_calls pg \<and>
     search_requests (doc (run_timers srv T pg)) = search_requests (doc pg)"
proof (induction srv T pg rule: run_timers.induct)
  case (1 srv T pg)
  show ?case
  proof (cases "next_timer pg")
    case None
    then show ?thesis
      by (simp add: run_timers.simps [of srv T pg])
  next
    case (Some a)
    obtain d is_poll where a: "a = (d, is_poll)"
      by (cases a)
    show ?thesis
    proof (cases "T < d")
      case True
      then show ?thesis
        using Some a by (simp add: run_timers.simps [of srv T pg])
    next
      case False
      have poll: "is_poll"
      proof (rule ccontr)
        assume "\<not> is_poll"
        with Some a have "search_timeout pg = Some d"
          by (simp add: next_timer_search)
        with "1.prems" False show False
          by (simp add: not_due_def)
      qed
      have step: "run_timers srv T pg = run_timers srv T (fire_poll srv pg)"
        using Some a False poll by (simp add: run_timers.simps [of srv T pg])
      have "not_due T (fire_poll srv pg)"
        using "1.prems" by simp
      with "1.IH" [OF Some a [symmetric] False] poll
      show ?thesis
        by (simp add: step)
    qed
  qed
qed


lemma fire_search_effect:
  "search_timeout pg = Some d \<Longrightarrow> search_input pg = Some v \<Longrightarrow>
     search_timeout (fire_search srv pg) = None \<and>
     search_input (fire_search srv pg) = Some v \<and>
     search_calls (fire_search srv pg) = search_calls pg @ [(d, SearchCallback v)] \<and>
     search_requests (doc (fire_search srv pg)) =
       search_requests (doc pg) @ (if length v < 2 then [] else [(d, search_request v)])"
  by (simp add: fire_search_def search_calls_def is_search_callback_def
        search_requests_searchMenu)

lemma run_timers_due:
  "search_timeout pg = Some d \<Longrightarrow> search_input pg = Some v \<Longrightarrow> d \<le> T \<Longrightarrow>
     search_timeout (run_timers srv T pg) = None \<and>
     search_input (run_timers srv T pg) = Some v \<and>
     search_calls (run_timers srv T pg) = search_calls pg @ [(d, SearchCallback v)] \<and>
     search_requests (doc (run_timers srv T pg)) =
       search_requests (doc pg) @ (if length v < 2 then [] else [(d, search_request v)])"
proof (induction srv T pg rule: run_timers.induct)
  case (1 srv T pg)
  from "1.prems" have "next_timer pg \<noteq> None"
    by (auto simp: next_timer_def split: option.splits)
  then obtain a where Some: "next_timer pg = Some a"
    by (cases "next_timer pg") simp_all
  obtain e is_poll where a: "a = (e, is_poll)"
    by (cases a)
  show ?case
  proof (cases is_poll)
    case True
    with Some a "1.prems" have "e \<le> d"
      by (simp add: next_timer_poll_first)
    with "1.prems" have due: "\<not> T < e"
      by simp
    have step: "run_timers srv T pg = run_timers srv T (fire_poll srv pg)"
      using Some a due True by (simp add: run_timers.simps [of srv T pg])
    from "1.IH" [OF Some a [symmetric] due] True "1.prems"
    show ?thesis
      by (simp add: step)
  next
    case False
    with Some a have e: "search_timeout pg = Some e"
      by (simp add: next_timer_search)
    with "1.prems" have ed: "e = d"
      by simp
    with "1.prems" have due: "\<not> T < e"
      by simp
    have step: "run_timers srv T pg = run_timers srv T (fire_search srv pg)"
      using Some a due False by (simp add: run_timers.simps [of srv T pg])
    have fired: "search_timeout (fire_search srv pg) = None \<and>
        search_input (fire_search srv pg) = Some v \<and>
        search_calls (fire_search srv pg) = search_calls pg @ [(d, SearchCallback v)] \<and>
        search_requests (doc (fire_search srv pg)) =
          search_requests (doc pg) @ (if length v < 2 then [] else [(d, search_request v)])"
      using "1.prems" by (intro fire_search_effect) simp_all
    then have "not_due T (fire_search srv pg)"
      by (simp add: not_due_def)
    from run_timers_not_due [OF this, of srv] fired
    show ?thesis
      by (simp add: step)
  qed
qed

lemma on_input_effect:
  "search_input pg = Some v \<Longrightarrow> not_due t pg \<Longrightarrow>
     search_timeout (on_input srv pg (t, new)) = Some (t + 300) \<and>
     search_input (on_input srv pg (t, new)) = Some new \<and>
     search_calls (on_input srv pg (t, new)) = search_calls pg \<and>
     search_requests (doc (on_input srv pg (t, new))) = search_requests (doc pg)"
  using run_timers_not_due [of t pg srv]
  by (simp add: on_input_def Let_def search_calls_def)

lemma typing_effect:
  "search_input pg = Some v \<Longrightarrow> not_due (fst e) pg \<Longrightarrow> paced (e # es) \<Longrightarrow>
     search_timeout (typing srv pg (e # es)) = Some (fst (last (e # es)) + 300) \<and>
     search_input (typing srv pg (e # es)) = Some (snd (last (e # es))) \<and>
     search_calls (typing srv pg (e # es)) = search_calls pg \<and>
     search_requests (doc (typing srv pg (e # es))) = search_requests (doc pg)"
proof (induction es arbitrary: pg e v)
  case Nil
  then show ?case
    using on_input_effect [of pg v "fst e" srv "snd e"] by (simp add: typing_def)
next
  case (Cons e2 es)
  let ?pg1 = "on_input srv pg e"
  from Cons.prems on_input_effect [of pg v "fst e" srv "snd e"]
  have one: "search_timeout ?pg1 = Some (fst e + 300)" "search_input ?pg1 = Some (snd e)"
      "search_calls ?pg1 = search_calls pg"
      "search_requests (doc ?pg1) = search_requests (doc pg)"
    by simp_all
  from Cons.prems have "fst e2 < fst e + 300" "paced (e2 # es)"
    by simp_all
  with one have "not_due (fst e2) ?pg1"
    by (simp add: not_due_def)
  from Cons.IH [OF one(2) this \<open>paced (e2 # es)\<close>] one
  show ?case
    by (simp add: typing_def)
qed

lemma debounce:
  assumes "search_input pg = Some v" and "search_timeout pg = None"
    and "evs \<noteq> []" and "paced evs" and "fst (last evs) + 300 \<le> T"
  shows "search_calls (run_timers srv T (typing srv pg evs)) =
           search_calls pg @ [(fst (last evs) + 300, SearchCallback (snd (last evs)))] \<and>
         search_requests (doc (run_timers srv T (typing srv pg evs))) =
           search_requests (doc pg) @
             (if length (snd (last evs)) < 2 then []
              else [(fst (last evs) + 300, search_request (snd (last evs)))])"
proof -
  from assms(3) obtain e es where evs: "evs = e # es"
    by (cases evs) auto
  from assms(2) have "not_due (fst e) pg"
    by (simp add: not_due_def)
  from typing_effect [OF assms(1) this, of es srv] assms(4) evs
  have typed: "search_timeout (typing srv pg evs) = Some (fst (last evs) + 300)"
      "search_input (typing srv pg evs) = Some (snd (last evs))"
      "search_calls (typing srv pg evs) = search_calls pg"
      "search_requests (doc (typing srv pg evs)) = search_requests (doc pg)"
    by simp_all
  from run_timers_due [OF typed(1) typed(2) assms(5), of srv] typed(3) typed(4)
  show ?thesis
    by simp
qed

subsection \<open>The debounced search\<close>

text \<open>
  C4, as amended. On a page with a search field and no search timer pending, after one
  or more input events, each less than 300 ms after the one before, and once 300 ms
  have passed since the last of them: the search callback has run exactly once, 300 ms
  after the last event, with the text the field held at that event. It has made one
  search request, at that time and for that text, when the text has at least 2
  characters, and no request otherwise.
\<close>

theorem debounced_search:
  assumes "search_input pg = Some v" and "search_timeout pg = None"
    and "evs \<noteq> []" and "paced evs" and "fst (last evs) + 300 \<le> T"
  shows "search_calls (run_timers srv T (typing srv pg evs)) =
           search_calls pg @ [(fst (last evs) + 300, SearchCallback (snd (last evs)))] \<and>
         search_requests (doc (run_timers srv T (typing srv pg evs))) =
           search_requests (doc pg) @
             (if length (snd (last evs)) < 2 then []
              else [(fst (last evs) + 300, search_request (snd (last evs)))])"
  using assms by (rule debounce)

lemma new_Dashboard_search:
  "search_input (new_Dashboard srv field w) = field"
  "search_timeout (new_Dashboard srv field w) = None"
  "search_calls (new_Dashboard srv field w) = []"
  "search_requests (doc (new_Dashboard srv field w)) = search_requests w"
  by (simp_all add: new_Dashboard_def search_calls_def)

lemma search_requests_demo_page: "search_requests demo_page = []"
  by (simp add: search_requests_def demo_page_def)

theorem debounced_search_witness:
  "paced [(1100, ''p''), (1250, ''pi''), (1400, ''piz'')] \<and>
   search_calls (run_timers offline 1700
       (typing offline (new_Dashboard offline (Some []) demo_page)
          [(1100, ''p''), (1250, ''pi''), (1400, ''piz'')])) =
     [(1700, SearchCallback ''piz'')] \<and>
   search_requests (doc (run_timers offline 1700
       (typing offline (new_Dashboard offline (Some []) demo_page)
          [(1100, ''p''), (1250, ''pi''), (1400, ''piz'')]))) =
     [(1700, search_request ''piz'')]"
proof -
  let ?evs = "[(1100::nat, ''p''), (1250, ''pi''), (1400, ''piz'')]"
  let ?pg = "new_Dashboard offline (Some []) demo_page"
  have paced: "paced ?evs"
    by simp
  have "search_input ?pg = Some []" "search_timeout ?pg = None" "?evs \<noteq> []"
      "fst (last ?evs) + 300 \<le> (1700::nat)"
    by (simp_all add: new_Dashboard_search)
  from debounced_search [OF this(1) this(2) this(3) paced this(4), of offline] paced
  show ?thesis
    by (simp add: new_Dashboard_search search_requests_demo_page)
qed

text \<open>
  C4 as stated fails: one input event that leaves a single character in the field is
  followed by the callback, which makes no search request.
\<close>

theorem short_text_counterexample:
  "paced [(1100, ''a'')] \<and>
   search_calls (run_timers offline 1400
       (typing offline (new_Dashboard offline (Some []) demo_page) [(1100, ''a'')])) =
     [(1400, SearchCallback ''a'')] \<and>
   search_requests (doc (run_timers offline 1400
       (typing offline (new_Dashboard offline (Some []) demo_page) [(1100, ''a'')]))) = []"
proof -
  let ?evs = "[(1100::nat, ''a'')]"
  let ?pg = "new_Dashboard offline (Some []) demo_page"
  have paced: "paced ?evs"
    by simp
  have "search_input ?pg = Some []" "search_timeout ?pg = None" "?evs \<noteq> []"
      "fst (last ?evs) + 300 \<le> (1400::nat)"
    by (simp_all add: new_Dashboard_search)
  from debounce [OF this(1) this(2) this(3) paced this(4), of offline] paced
  show ?thesis
    by (simp add: new_Dashboard_search search_requests_demo_page)
qed

subsection \<open>The polling\<close>



lemma polled_requests_differ [simp]:
  "notifications_request \<noteq> cart_count_request"
  "notifications_request \<noteq> order_stats_request"
  "notifications_request \<noteq> search_request q"
  "order_stats_request \<noteq> cart_count_request"
  "order_stats_request \<noteq> notifications_request"
  "order_stats_request \<noteq> search_request q"
  "cart_count_request \<noteq> notifications_request"
  "search_request q \<noteq> notifications_request"
  "cart_count_request \<noteq> order_stats_request"
  "search_request q \<noteq> order_stats_request"
  by (simp_all add: notifications_request_def cart_count_request_def order_stats_request_def
        search_request_def http_get_def)

lemma request_times_clock [simp]: "request_times rq (w\<lparr>clock := t\<rparr>) = request_times rq w"
  by (simp add: request_times_def)







subsection \<open>Notifications\<close>










lemma replies_to_requests:
  "requests w' = requests w @ rs \<Longrightarrow>
     replies_to rq srv w' =
       replies_to rq srv w @
         map (\<lambda>ie. srv (fst ie) rq)
           (filter (\<lambda>ie. snd (snd ie) = rq) (enumerate (length (requests w)) rs))"
  by (simp add: replies_to_def enumerate_append_eq)

lemma replies_to_clock [simp]: "replies_to rq srv (w\<lparr>clock := t\<rparr>) = replies_to rq srv w"
  by (simp add: replies_to_def)


lemma replies_to_others [simp]:
  "replies_to notifications_request srv (updateCartBadge srv c w) =
     replies_to notifications_request srv w"
  "replies_to notifications_request srv (updateOrderStats srv w) =
     replies_to notifications_request srv w"
  "replies_to notifications_request srv (searchMenu srv q w) =
     replies_to notifications_request srv w"
  using replies_to_requests [OF updateCartBadge_requests, of notifications_request srv srv c w]
    replies_to_requests [OF updateOrderStats_requests, of notifications_request srv srv w]
    replies_to_requests [OF searchMenu_requests, of notifications_request srv srv q w]
  by simp_all


















end
